theory Spec2Isabelle
  imports Main "HOL-Library.Sublist"
begin

section \<open>The configuration holder of \<^verbatim>\<open>src/bot/yagpt_service.py\<close>\<close>

text \<open>
  The module defines one class, \<^verbatim>\<open>YandexGPTConfigManagerBase\<close>, with four attributes of
  type \<^verbatim>\<open>Optional[str]\<close> and three read-only properties, and one module-level list,
  \<^verbatim>\<open>available_models\<close>.

  A Python \<^verbatim>\<open>str\<close> is modelled as a \<^typ>\<open>string\<close>. The code only compares strings for
  equality, tests them for emptiness and concatenates them, so the alphabet plays no role.
  \<^verbatim>\<open>None\<close> is \<^term>\<open>None\<close>, a string \<^verbatim>\<open>s\<close> is \<^term>\<open>Some s\<close>.
\<close>

subsection \<open>Data\<close>

text \<open>The instance attributes assigned by \<^verbatim>\<open>__init__\<close> (lines 37 to 40).\<close>

record config =
  model_type :: "string option"
  catalog_id :: "string option"
  iam_token :: "string option"
  api_key :: "string option"

text \<open>Every \<^verbatim>\<open>raise\<close> of the module is \<^verbatim>\<open>raise ValueError(message)\<close>.\<close>

datatype error = ValueError string

text \<open>Line 9: \<^verbatim>\<open>available_models = ["yandexgpt", "yandexgpt-lite", "summarization"]\<close>.
  Nothing in the module assigns to it or mutates it, and this constant is its value as
  the module leaves it.\<close>

definition available_models :: "string list" where
  "available_models = [''yandexgpt'', ''yandexgpt-lite'', ''summarization'']"

subsection \<open>The Python primitives the properties use\<close>

text \<open>Truth value of an \<^verbatim>\<open>Optional[str]\<close> in a condition: \<^verbatim>\<open>None\<close> and \<^verbatim>\<open>""\<close> are false.\<close>

fun truthy :: "string option \<Rightarrow> bool" where
  "truthy None = False"
| "truthy (Some s) = (s \<noteq> [])"

text \<open>A replacement field \<^verbatim>\<open>{x}\<close> of an f-string, for \<^verbatim>\<open>x\<close> an \<^verbatim>\<open>Optional[str]\<close>:
  \<^verbatim>\<open>format(None, "")\<close> is \<^verbatim>\<open>"None"\<close>, \<^verbatim>\<open>format(s, "")\<close> is \<^verbatim>\<open>s\<close>.\<close>

fun py_format :: "string option \<Rightarrow> string" where
  "py_format None = ''None''"
| "py_format (Some s) = s"

text \<open>\<^verbatim>\<open>x in xs\<close> and \<^verbatim>\<open>x not in xs\<close> for a list of strings: \<^verbatim>\<open>None\<close> equals no string.\<close>

fun py_in :: "string option \<Rightarrow> string list \<Rightarrow> bool" where
  "py_in None xs = False"
| "py_in (Some s) xs = (s \<in> set xs)"

text \<open>
  \<^verbatim>\<open>repr\<close> of a string. Python puts the string between single quotes and escapes
  backslashes, quotes and unprintable characters; a string that has none of these (a
  \<open>plain\<close> string) is left as it is between the quotes. The model is that of plain
  strings, which is all the module formats: see \<open>available_models_plain\<close> below.
\<close>

definition plain_char :: "char \<Rightarrow> bool" where
  "plain_char c = ((32::nat) \<le> of_char c \<and> (of_char c :: nat) < 127
     \<and> c \<noteq> CHR 0x27 \<and> c \<noteq> CHR 0x22 \<and> c \<noteq> CHR 0x5C)"

definition plain :: "string \<Rightarrow> bool" where
  "plain s = list_all plain_char s"

definition py_repr_str :: "string \<Rightarrow> string" where
  "py_repr_str s = [CHR 0x27] @ s @ [CHR 0x27]"

text \<open>\<^verbatim>\<open>", ".join(parts)\<close>.\<close>

fun join_comma :: "string list \<Rightarrow> string" where
  "join_comma [] = []"
| "join_comma [p] = p"
| "join_comma (p # q # ps) = p @ '', '' @ join_comma (q # ps)"

text \<open>\<^verbatim>\<open>repr\<close> of a list of strings, which is what \<^verbatim>\<open>{available_models}\<close> formats to.\<close>

definition py_repr_list :: "string list \<Rightarrow> string" where
  "py_repr_list xs = ''['' @ join_comma (map py_repr_str xs) @ '']''"

subsection \<open>The class\<close>

text \<open>
  \<^verbatim>\<open>__init__\<close> (lines 16 to 40) assigns its four arguments to the four attributes and
  has no other statement. The result is a sum so that its success is a statement about
  the definition.
\<close>

definition init :: "string option \<Rightarrow> string option \<Rightarrow> string option \<Rightarrow> string option
    \<Rightarrow> error + config" where
  "init model_type' catalog_id' iam_token' api_key' =
     Inr \<lparr>model_type = model_type', catalog_id = catalog_id',
          iam_token = iam_token', api_key = api_key'\<rparr>"

text \<open>
  A property is evaluated on the instance and either returns a string or raises. The
  model returns the outcome together with the instance as the evaluation leaves it.
\<close>

type_synonym outcome = "(error + string) \<times> config"

text \<open>Lines 59 to 64.\<close>

definition completion_request_authorization_field :: "config \<Rightarrow> outcome" where
  "completion_request_authorization_field self =
     (if truthy (iam_token self) then
        (Inr (''Bearer '' @ py_format (iam_token self)), self)
      else if truthy (api_key self) then
        (Inr (''Api-Key '' @ py_format (api_key self)), self)
      else
        (Inl (ValueError ''IAM token or API key is not set''), self))"

text \<open>Lines 82 to 85. The value returned is the attribute itself, a string on this branch.\<close>

definition completion_request_catalog_id_field :: "config \<Rightarrow> outcome" where
  "completion_request_catalog_id_field self =
     (case catalog_id self of
        Some s \<Rightarrow>
          if s \<noteq> [] then (Inr s, self)
          else (Inl (ValueError ''Catalog ID is not set''), self)
      | None \<Rightarrow> (Inl (ValueError ''Catalog ID is not set''), self))"

text \<open>Lines 105 to 112.\<close>

definition completion_request_model_type_uri_field :: "config \<Rightarrow> outcome" where
  "completion_request_model_type_uri_field self =
     (if \<not> py_in (model_type self) available_models then
        (Inl (ValueError (''Model type '' @ py_format (model_type self)
                @ '' is not supported. Supported values: ''
                @ py_repr_list available_models)), self)
      else if truthy (model_type self) \<and> truthy (catalog_id self) then
        (Inr (''gpt://'' @ py_format (catalog_id self) @ ''/''
                @ py_format (model_type self) @ ''/latest''), self)
      else
        (Inl (ValueError ''Model type or catalog ID is not set''), self))"

subsection \<open>The module-level list as state\<close>

text \<open>
  The property looks the name \<^verbatim>\<open>available_models\<close> up in the module each time it is
  read (line 102 declares it \<^verbatim>\<open>global\<close>), and the list is a mutable object that every
  importer of the module can change in place or rebind. The definition below is lines
  105 to 112 with the list that the name holds at the time of the read as an argument;
  at the list of line 9 it is the definition above.
\<close>

definition completion_request_model_type_uri_field_at :: "string list \<Rightarrow> config \<Rightarrow> outcome" where
  "completion_request_model_type_uri_field_at models self =
     (if \<not> py_in (model_type self) models then
        (Inl (ValueError (''Model type '' @ py_format (model_type self)
                @ '' is not supported. Supported values: ''
                @ py_repr_list models)), self)
      else if truthy (model_type self) \<and> truthy (catalog_id self) then
        (Inr (''gpt://'' @ py_format (catalog_id self) @ ''/''
                @ py_format (model_type self) @ ''/latest''), self)
      else
        (Inl (ValueError ''Model type or catalog ID is not set''), self))"

subsection \<open>A client of the module\<close>

text \<open>
  What a client of one instance can see and change: the module-level list and the four
  public attributes of the instance.
\<close>

record program_state =
  global_available_models :: "string list"
  instance_attrs :: config

text \<open>
  The client reads the three properties, assigns the four attributes, and changes the
  module-level list, in any order. \<open>exec\<close> gives the state after one such action.
\<close>

datatype action =
    Get_authorization_field
  | Get_catalog_id_field
  | Get_model_type_uri_field
  | Set_model_type "string option"
  | Set_catalog_id "string option"
  | Set_iam_token "string option"
  | Set_api_key "string option"
  | Set_available_models "string list"

fun is_assignment :: "action \<Rightarrow> bool" where
  "is_assignment Get_authorization_field = False"
| "is_assignment Get_catalog_id_field = False"
| "is_assignment Get_model_type_uri_field = False"
| "is_assignment (Set_model_type v) = True"
| "is_assignment (Set_catalog_id v) = True"
| "is_assignment (Set_iam_token v) = True"
| "is_assignment (Set_api_key v) = True"
| "is_assignment (Set_available_models ms) = True"

fun exec :: "action \<Rightarrow> program_state \<Rightarrow> program_state" where
  "exec Get_authorization_field st =
     st\<lparr>instance_attrs := snd (completion_request_authorization_field (instance_attrs st))\<rparr>"
| "exec Get_catalog_id_field st =
     st\<lparr>instance_attrs := snd (completion_request_catalog_id_field (instance_attrs st))\<rparr>"
| "exec Get_model_type_uri_field st =
     st\<lparr>instance_attrs := snd (completion_request_model_type_uri_field_at
        (global_available_models st) (instance_attrs st))\<rparr>"
| "exec (Set_model_type v) st = st\<lparr>instance_attrs := (instance_attrs st)\<lparr>model_type := v\<rparr>\<rparr>"
| "exec (Set_catalog_id v) st = st\<lparr>instance_attrs := (instance_attrs st)\<lparr>catalog_id := v\<rparr>\<rparr>"
| "exec (Set_iam_token v) st = st\<lparr>instance_attrs := (instance_attrs st)\<lparr>iam_token := v\<rparr>\<rparr>"
| "exec (Set_api_key v) st = st\<lparr>instance_attrs := (instance_attrs st)\<lparr>api_key := v\<rparr>\<rparr>"
| "exec (Set_available_models ms) st = st\<lparr>global_available_models := ms\<rparr>"

text \<open>The state after a sequence of actions, the first of the list first.\<close>

definition run :: "action list \<Rightarrow> program_state \<Rightarrow> program_state" where
  "run acts st = fold exec acts st"

section \<open>Facts about the primitives\<close>

lemma truthy_iff: "truthy x \<longleftrightarrow> x \<noteq> None \<and> x \<noteq> Some []"
  by (cases x) simp_all

lemma py_in_iff: "py_in x xs \<longleftrightarrow> x \<in> Some ` set xs"
  by (cases x) auto

lemma set_available_models:
  "set available_models = {''yandexgpt'', ''yandexgpt-lite'', ''summarization''}"
  by (simp add: available_models_def)

text \<open>Every string whose \<^verbatim>\<open>repr\<close> the module takes is plain.\<close>

lemma available_models_plain: "list_all plain available_models"
  by (simp add: available_models_def plain_def plain_char_def)

lemma available_models_nonempty: "[] \<notin> set available_models"
  by (simp add: available_models_def)

lemma py_repr_list_available_models:
  "py_repr_list available_models =
     ''['' @ [CHR 0x27] @ ''yandexgpt'' @ [CHR 0x27] @ '', ''
          @ [CHR 0x27] @ ''yandexgpt-lite'' @ [CHR 0x27] @ '', ''
          @ [CHR 0x27] @ ''summarization'' @ [CHR 0x27] @ '']''"
  by (simp add: py_repr_list_def py_repr_str_def available_models_def)

text \<open>A string is part of its \<^verbatim>\<open>repr\<close>, and of the \<^verbatim>\<open>repr\<close> of a list that holds it.\<close>

lemma sublist_py_repr_str: "sublist s (py_repr_str s)"
  unfolding py_repr_str_def by (rule sublist_appendI)

lemma sublist_join_comma: "p \<in> set ps \<Longrightarrow> sublist p (join_comma ps)"
proof (induction ps rule: join_comma.induct)
  case 1
  then show ?case by simp
next
  case (2 q)
  then show ?case by simp
next
  case (3 q r ps)
  show ?case
  proof (cases "p = q")
    case True
    then show ?thesis by simp
  next
    case False
    with "3.prems" have "p \<in> set (r # ps)" by simp
    then have "sublist p (join_comma (r # ps))" by (rule "3.IH")
    moreover have "sublist (join_comma (r # ps)) ((q @ '', '') @ join_comma (r # ps))"
      by (rule sublist_append_leftI)
    ultimately show ?thesis
      by (auto intro: sublist_order.order_trans)
  qed
qed

lemma sublist_py_repr_list:
  assumes "x \<in> set xs"
  shows "sublist x (py_repr_list xs)"
proof -
  have "py_repr_str x \<in> set (map py_repr_str xs)"
    using assms by simp
  then have "sublist (py_repr_str x) (join_comma (map py_repr_str xs))"
    by (rule sublist_join_comma)
  with sublist_py_repr_str have "sublist x (join_comma (map py_repr_str xs))"
    by (rule sublist_order.order_trans)
  moreover have "sublist (join_comma (map py_repr_str xs)) (py_repr_list xs)"
    unfolding py_repr_list_def by (rule sublist_appendI)
  ultimately show ?thesis
    by (rule sublist_order.order_trans)
qed

lemma sublist_unsupported_message:
  assumes "x \<in> set xs"
  shows "sublist x (u @ v @ w @ py_repr_list xs)"
proof -
  from assms have "sublist x (py_repr_list xs)"
    by (rule sublist_py_repr_list)
  moreover have "sublist (py_repr_list xs) ((u @ v @ w) @ py_repr_list xs)"
    by (rule sublist_append_leftI)
  ultimately have "sublist x ((u @ v @ w) @ py_repr_list xs)"
    by (rule sublist_order.order_trans)
  then show ?thesis by simp
qed

lemma available_models_members:
  "''yandexgpt'' \<in> set available_models"
  "''yandexgpt-lite'' \<in> set available_models"
  "''summarization'' \<in> set available_models"
  by (simp_all add: available_models_def)

text \<open>
  The message of line 106 ends with the closing bracket of the list, so it is never the
  message of line 112.
\<close>

lemma last_py_repr_list: "last (u @ py_repr_list xs) = CHR '']''"
  by (simp add: py_repr_list_def)

lemma unsupported_message_neq_not_set:
  "''Model type '' @ x @ '' is not supported. Supported values: '' @ py_repr_list xs
     \<noteq> ''Model type or catalog ID is not set''"
proof
  assume "''Model type '' @ x @ '' is not supported. Supported values: '' @ py_repr_list xs
     = ''Model type or catalog ID is not set''"
  then have "last ((''Model type '' @ x @ '' is not supported. Supported values: '') @ py_repr_list xs)
     = last ''Model type or catalog ID is not set''"
    by simp
  then show False
    unfolding last_py_repr_list by simp
qed

section \<open>Facts about the client\<close>

lemma model_type_uri_field_at_available_models:
  "completion_request_model_type_uri_field_at available_models self
     = completion_request_model_type_uri_field self"
  by (simp add: completion_request_model_type_uri_field_at_def
      completion_request_model_type_uri_field_def)

lemma run_Nil: "run [] st = st"
  by (simp add: run_def)

lemma run_Cons: "run (a # acts) st = run acts (exec a st)"
  by (simp add: run_def)

text \<open>No property assigns an attribute.\<close>

lemma snd_authorization_field: "snd (completion_request_authorization_field c) = c"
  by (simp add: completion_request_authorization_field_def)

lemma snd_catalog_id_field: "snd (completion_request_catalog_id_field c) = c"
  by (simp add: completion_request_catalog_id_field_def split: option.splits)

lemma snd_model_type_uri_field_at: "snd (completion_request_model_type_uri_field_at ms c) = c"
  by (simp add: completion_request_model_type_uri_field_at_def)

lemma exec_read: "\<not> is_assignment a \<Longrightarrow> exec a st = st"
  by (cases a)
    (simp_all add: snd_authorization_field snd_catalog_id_field snd_model_type_uri_field_at)

lemma run_filter: "run acts st = run (filter is_assignment acts) st"
proof (induction acts arbitrary: st)
  case Nil
  show ?case by simp
next
  case (Cons a acts)
  show ?case
  proof (cases "is_assignment a")
    case True
    then show ?thesis using Cons.IH [of "exec a st"] by (simp add: run_Cons)
  next
    case False
    then show ?thesis using Cons.IH [of st] by (simp add: run_Cons exec_read)
  qed
qed

section \<open>The authorization field\<close>

text \<open>
  C1. Whenever \<open>iam_token\<close> is a non-empty string, the authorization field is
  \<^verbatim>\<open>"Bearer "\<close> followed by the token, whatever \<open>api_key\<close> (and the other two
  attributes) hold: the token takes precedence over the key.
\<close>

theorem authorization_field_bearer:
  assumes "t \<noteq> []"
  shows "fst (completion_request_authorization_field
            \<lparr>model_type = m, catalog_id = cid, iam_token = Some t, api_key = k\<rparr>)
         = Inr (''Bearer '' @ t)"
  using assms by (simp add: completion_request_authorization_field_def)

theorem authorization_field_bearer_witness:
  "fst (completion_request_authorization_field
      \<lparr>model_type = None, catalog_id = None, iam_token = Some ''t1'', api_key = Some ''k1''\<rparr>)
   = Inr ''Bearer t1''"
  using authorization_field_bearer [of "''t1''" None None "Some ''k1''"] by simp

text \<open>
  C2. Whenever \<open>iam_token\<close> is unset or the empty string and \<open>api_key\<close> is a non-empty
  string, the authorization field is \<^verbatim>\<open>"Api-Key "\<close> followed by the key.
\<close>

theorem authorization_field_api_key:
  assumes "tok = None \<or> tok = Some []" and "k \<noteq> []"
  shows "fst (completion_request_authorization_field
            \<lparr>model_type = m, catalog_id = cid, iam_token = tok, api_key = Some k\<rparr>)
         = Inr (''Api-Key '' @ k)"
  using assms by (auto simp add: completion_request_authorization_field_def)

theorem authorization_field_api_key_witness:
  "fst (completion_request_authorization_field
      \<lparr>model_type = None, catalog_id = None, iam_token = Some [], api_key = Some ''k1''\<rparr>)
   = Inr ''Api-Key k1''"
  using authorization_field_api_key [of "Some []" "''k1''" None None] by simp

text \<open>
  C3. The authorization field raises exactly when both \<open>iam_token\<close> and \<open>api_key\<close> are
  unset or empty, and returns a string exactly in all other configurations.
\<close>

theorem authorization_field_fails_iff:
  "((\<exists>msg. fst (completion_request_authorization_field c) = Inl (ValueError msg))
      \<longleftrightarrow> iam_token c \<in> {None, Some []} \<and> api_key c \<in> {None, Some []})
   \<and> ((\<exists>s. fst (completion_request_authorization_field c) = Inr s)
      \<longleftrightarrow> \<not> (iam_token c \<in> {None, Some []} \<and> api_key c \<in> {None, Some []}))"
  by (auto simp add: completion_request_authorization_field_def truthy_iff)

theorem authorization_field_fails_iff_witness:
  "(\<exists>msg. fst (completion_request_authorization_field
       \<lparr>model_type = None, catalog_id = None, iam_token = None, api_key = None\<rparr>)
     = Inl (ValueError msg))
   \<and> (\<exists>s. fst (completion_request_authorization_field
       \<lparr>model_type = None, catalog_id = None, iam_token = None, api_key = Some ''k1''\<rparr>)
     = Inr s)"
  using authorization_field_fails_iff
      [of "\<lparr>model_type = None, catalog_id = None, iam_token = None, api_key = None\<rparr>"]
    authorization_field_fails_iff
      [of "\<lparr>model_type = None, catalog_id = None, iam_token = None, api_key = Some ''k1''\<rparr>"]
  by simp

section \<open>The catalog id field\<close>

text \<open>
  C4. The catalog id field raises when \<open>catalog_id\<close> is unset or empty, and otherwise
  returns the stored string as it is.
\<close>

theorem catalog_id_field_result:
  "(cid \<in> {None, Some []} \<longrightarrow>
      (\<exists>msg. fst (completion_request_catalog_id_field
          \<lparr>model_type = m, catalog_id = cid, iam_token = tok, api_key = k\<rparr>)
        = Inl (ValueError msg)))
   \<and> (s \<noteq> [] \<longrightarrow>
      fst (completion_request_catalog_id_field
          \<lparr>model_type = m, catalog_id = Some s, iam_token = tok, api_key = k\<rparr>)
        = Inr s)"
  by (auto simp add: completion_request_catalog_id_field_def)

theorem catalog_id_field_result_witness:
  "(\<exists>msg. fst (completion_request_catalog_id_field
       \<lparr>model_type = None, catalog_id = Some [], iam_token = None, api_key = None\<rparr>)
     = Inl (ValueError msg))
   \<and> fst (completion_request_catalog_id_field
       \<lparr>model_type = None, catalog_id = Some ''cat123'', iam_token = None, api_key = None\<rparr>)
     = Inr ''cat123''"
  using catalog_id_field_result [of "Some []" None None None "''cat123''"]
  by simp

section \<open>The model URI field\<close>

text \<open>
  C5. Whenever \<open>model_type\<close> (unset included) is not one of \<^verbatim>\<open>"yandexgpt"\<close>,
  \<^verbatim>\<open>"yandexgpt-lite"\<close> and \<^verbatim>\<open>"summarization"\<close>, the model URI field raises, whatever
  \<open>catalog_id\<close> holds. The message of the error is that of line 106: it contains the
  rejected value as the f-string formats it (\<^verbatim>\<open>None\<close> when unset) and each member of
  the allow-list.
\<close>

theorem model_type_uri_field_unsupported:
  assumes "mt \<notin> Some ` {''yandexgpt'', ''yandexgpt-lite'', ''summarization''}"
  shows "\<exists>msg. fst (completion_request_model_type_uri_field
              \<lparr>model_type = mt, catalog_id = cid, iam_token = tok, api_key = k\<rparr>)
            = Inl (ValueError msg)
          \<and> msg = ''Model type '' @ py_format mt @ '' is not supported. Supported values: ''
                @ py_repr_list available_models
          \<and> sublist (py_format mt) msg
          \<and> sublist ''yandexgpt'' msg \<and> sublist ''yandexgpt-lite'' msg
          \<and> sublist ''summarization'' msg"
proof -
  let ?msg = "''Model type '' @ py_format mt @ '' is not supported. Supported values: ''
    @ py_repr_list available_models"
  from assms have "\<not> py_in mt available_models"
    by (simp only: py_in_iff set_available_models not_False_eq_True)
  then have "fst (completion_request_model_type_uri_field
        \<lparr>model_type = mt, catalog_id = cid, iam_token = tok, api_key = k\<rparr>)
      = Inl (ValueError ?msg)"
    by (simp add: completion_request_model_type_uri_field_def)
  moreover have "sublist (py_format mt) ?msg"
    by (rule sublist_appendI)
  moreover have "sublist ''yandexgpt'' ?msg" and "sublist ''yandexgpt-lite'' ?msg"
    and "sublist ''summarization'' ?msg"
    by (rule sublist_unsupported_message, rule available_models_members)+
  ultimately show ?thesis
    by (intro exI [of _ ?msg] conjI refl)
qed


theorem model_type_uri_field_unsupported_witness:
  "\<exists>msg. fst (completion_request_model_type_uri_field
       \<lparr>model_type = Some ''unknown'', catalog_id = Some ''cat123'',
        iam_token = None, api_key = None\<rparr>)
     = Inl (ValueError msg) \<and> sublist ''unknown'' msg"
proof -
  have "Some ''unknown'' \<notin> Some ` {''yandexgpt'', ''yandexgpt-lite'', ''summarization''}"
    by simp
  from model_type_uri_field_unsupported [OF this, of "Some ''cat123''" None None]
  show ?thesis
    unfolding py_format.simps by blast
qed

text \<open>
  C6. Whenever \<open>model_type\<close> is one of the three allowed strings and \<open>catalog_id\<close> is a
  non-empty string, the model URI field is \<^verbatim>\<open>"gpt://" + catalog_id + "/" + model_type +
  "/latest"\<close>.
\<close>

theorem model_type_uri_field_value:
  assumes "mt \<in> {''yandexgpt'', ''yandexgpt-lite'', ''summarization''}" and "cid \<noteq> []"
  shows "fst (completion_request_model_type_uri_field
            \<lparr>model_type = Some mt, catalog_id = Some cid, iam_token = tok, api_key = k\<rparr>)
         = Inr (''gpt://'' @ cid @ ''/'' @ mt @ ''/latest'')"
proof -
  from assms(1) have "py_in (Some mt) available_models"
    by (simp only: py_in_iff set_available_models image_eqI [OF refl])
  moreover from this have "mt \<noteq> []"
    using available_models_nonempty by auto
  ultimately show ?thesis
    using assms(2) by (simp add: completion_request_model_type_uri_field_def)
qed

theorem model_type_uri_field_value_witness:
  "fst (completion_request_model_type_uri_field
      \<lparr>model_type = Some ''yandexgpt'', catalog_id = Some ''cat123'',
       iam_token = None, api_key = None\<rparr>)
   = Inr ''gpt://cat123/yandexgpt/latest''"
  using model_type_uri_field_value [of "''yandexgpt''" "''cat123''" None None] by simp

text \<open>
  C7. Whenever \<open>model_type\<close> is one of the three allowed strings and \<open>catalog_id\<close> is
  unset or empty, the model URI field raises, with the message of line 112.
\<close>

theorem model_type_uri_field_no_catalog:
  assumes "mt \<in> Some ` {''yandexgpt'', ''yandexgpt-lite'', ''summarization''}"
    and "cid = None \<or> cid = Some []"
  shows "fst (completion_request_model_type_uri_field
            \<lparr>model_type = mt, catalog_id = cid, iam_token = tok, api_key = k\<rparr>)
         = Inl (ValueError ''Model type or catalog ID is not set'')"
proof -
  from assms(1) have "py_in mt available_models"
    by (simp only: py_in_iff set_available_models)
  moreover from assms(2) have "\<not> truthy cid"
    by (simp add: truthy_iff)
  ultimately show ?thesis
    by (simp add: completion_request_model_type_uri_field_def)
qed

theorem model_type_uri_field_no_catalog_witness:
  "fst (completion_request_model_type_uri_field
      \<lparr>model_type = Some ''summarization'', catalog_id = None,
       iam_token = Some ''t1'', api_key = None\<rparr>)
   = Inl (ValueError ''Model type or catalog ID is not set'')"
  using model_type_uri_field_no_catalog
    [of "Some ''summarization''" None "Some ''t1''" None] by simp

text \<open>
  C10. The membership test of line 105 comes first. So an unset or empty \<open>model_type\<close>
  raises the error of line 106, which names the allow-list, and the error of line 112 is
  raised exactly when \<open>model_type\<close> is an allowed string and \<open>catalog_id\<close> is unset or
  empty; no allowed string is empty.
\<close>

theorem model_type_uri_field_check_order:
  "(model_type c \<in> {None, Some []} \<longrightarrow>
      fst (completion_request_model_type_uri_field c)
        = Inl (ValueError (''Model type '' @ py_format (model_type c)
            @ '' is not supported. Supported values: '' @ py_repr_list available_models)))
   \<and> (fst (completion_request_model_type_uri_field c)
        = Inl (ValueError ''Model type or catalog ID is not set'')
      \<longleftrightarrow> model_type c \<in> Some ` {''yandexgpt'', ''yandexgpt-lite'', ''summarization''}
          \<and> catalog_id c \<in> {None, Some []})
   \<and> [] \<notin> set available_models"
proof (intro conjI impI)
  assume "model_type c \<in> {None, Some []}"
  with available_models_nonempty have "\<not> py_in (model_type c) available_models"
    by (auto simp add: py_in_iff)
  then show "fst (completion_request_model_type_uri_field c)
        = Inl (ValueError (''Model type '' @ py_format (model_type c)
            @ '' is not supported. Supported values: '' @ py_repr_list available_models))"
    by (simp add: completion_request_model_type_uri_field_def)
next
  show "fst (completion_request_model_type_uri_field c)
        = Inl (ValueError ''Model type or catalog ID is not set'')
      \<longleftrightarrow> model_type c \<in> Some ` {''yandexgpt'', ''yandexgpt-lite'', ''summarization''}
          \<and> catalog_id c \<in> {None, Some []}"
  proof (cases "py_in (model_type c) available_models")
    case False
    moreover from False
    have "model_type c \<notin> Some ` {''yandexgpt'', ''yandexgpt-lite'', ''summarization''}"
      by (simp only: py_in_iff set_available_models not_False_eq_True)
    ultimately show ?thesis
      by (simp add: completion_request_model_type_uri_field_def
          unsupported_message_neq_not_set)
  next
    case True
    then have mem: "model_type c \<in> Some ` {''yandexgpt'', ''yandexgpt-lite'', ''summarization''}"
      by (simp only: py_in_iff set_available_models)
    from True available_models_nonempty have "truthy (model_type c)"
      by (auto simp add: py_in_iff truthy_iff)
    with True mem show ?thesis
      by (simp add: completion_request_model_type_uri_field_def truthy_iff)
  qed
next
  show "[] \<notin> set available_models"
    by (rule available_models_nonempty)
qed

theorem model_type_uri_field_check_order_witness:
  "fst (completion_request_model_type_uri_field
      \<lparr>model_type = Some [], catalog_id = None, iam_token = None, api_key = None\<rparr>)
    = Inl (ValueError (''Model type  is not supported. Supported values: ''
        @ py_repr_list available_models))
   \<and> fst (completion_request_model_type_uri_field
      \<lparr>model_type = Some ''yandexgpt'', catalog_id = Some [], iam_token = None, api_key = None\<rparr>)
    = Inl (ValueError ''Model type or catalog ID is not set'')"
  using model_type_uri_field_check_order
      [of "\<lparr>model_type = Some [], catalog_id = None, iam_token = None, api_key = None\<rparr>"]
    model_type_uri_field_check_order
      [of "\<lparr>model_type = Some ''yandexgpt'', catalog_id = Some [],
            iam_token = None, api_key = None\<rparr>"]
  by simp

section \<open>Construction\<close>

text \<open>
  C8. For any four optional strings the constructor succeeds, and each attribute of the
  instance is the argument given for it.
\<close>

theorem init_stores_arguments:
  "\<exists>self. init mt cid tok k = Inr self
      \<and> model_type self = mt \<and> catalog_id self = cid
      \<and> iam_token self = tok \<and> api_key self = k"
  by (simp add: init_def)

section \<open>Reading a property changes nothing\<close>

text \<open>
  C9. Each of the three properties leaves the four attributes as it found
  them, whether it returns or raises, for every content of the module-level list. Nothing
  is cached: in any sequence of property reads, attribute assignments and changes of the
  module-level list, the reads can be dropped without changing the state reached. The
  outcome of the authorization field is determined by \<open>iam_token\<close> and \<open>api_key\<close>, that
  of the catalog id field by \<open>catalog_id\<close>, and that of the model URI field by
  \<open>model_type\<close> and \<open>catalog_id\<close> together with the content of the module-level list at
  the time of the read.
\<close>

theorem properties_frame_and_dependence:
  "snd (completion_request_authorization_field c) = c
   \<and> snd (completion_request_catalog_id_field c) = c
   \<and> snd (completion_request_model_type_uri_field_at ms c) = c
   \<and> run acts st = run (filter is_assignment acts) st
   \<and> (iam_token c = iam_token c' \<and> api_key c = api_key c' \<longrightarrow>
        fst (completion_request_authorization_field c)
          = fst (completion_request_authorization_field c'))
   \<and> (catalog_id c = catalog_id c' \<longrightarrow>
        fst (completion_request_catalog_id_field c)
          = fst (completion_request_catalog_id_field c'))
   \<and> (model_type c = model_type c' \<and> catalog_id c = catalog_id c' \<longrightarrow>
        fst (completion_request_model_type_uri_field_at ms c)
          = fst (completion_request_model_type_uri_field_at ms c'))"
proof (intro conjI impI)
  show "snd (completion_request_authorization_field c) = c"
    by (rule snd_authorization_field)
  show "snd (completion_request_catalog_id_field c) = c"
    by (rule snd_catalog_id_field)
  show "snd (completion_request_model_type_uri_field_at ms c) = c"
    by (rule snd_model_type_uri_field_at)
  show "run acts st = run (filter is_assignment acts) st"
    by (rule run_filter)
next
  assume "iam_token c = iam_token c' \<and> api_key c = api_key c'"
  then show "fst (completion_request_authorization_field c)
      = fst (completion_request_authorization_field c')"
    by (simp add: completion_request_authorization_field_def)
next
  assume "catalog_id c = catalog_id c'"
  then show "fst (completion_request_catalog_id_field c)
      = fst (completion_request_catalog_id_field c')"
    by (simp add: completion_request_catalog_id_field_def split: option.splits)
next
  assume "model_type c = model_type c' \<and> catalog_id c = catalog_id c'"
  then show "fst (completion_request_model_type_uri_field_at ms c)
      = fst (completion_request_model_type_uri_field_at ms c')"
    by (simp add: completion_request_model_type_uri_field_at_def)
qed

theorem properties_frame_and_dependence_witness:
  "fst (completion_request_authorization_field
      \<lparr>model_type = None, catalog_id = None, iam_token = Some ''t1'', api_key = None\<rparr>)
    = fst (completion_request_authorization_field
      \<lparr>model_type = Some ''yandexgpt'', catalog_id = Some ''cat123'',
       iam_token = Some ''t1'', api_key = None\<rparr>)
   \<and> fst (completion_request_catalog_id_field
      \<lparr>model_type = None, catalog_id = None, iam_token = Some ''t1'', api_key = None\<rparr>)
    = fst (completion_request_catalog_id_field
      \<lparr>model_type = Some ''yandexgpt'', catalog_id = None,
       iam_token = None, api_key = Some ''k1''\<rparr>)
   \<and> fst (completion_request_model_type_uri_field_at [''yandexgpt'']
      \<lparr>model_type = Some ''yandexgpt'', catalog_id = Some ''cat123'',
       iam_token = Some ''t1'', api_key = None\<rparr>)
    = fst (completion_request_model_type_uri_field_at [''yandexgpt'']
      \<lparr>model_type = Some ''yandexgpt'', catalog_id = Some ''cat123'',
       iam_token = None, api_key = Some ''k1''\<rparr>)
   \<and> run [Get_model_type_uri_field, Set_catalog_id (Some ''cat123''), Get_catalog_id_field,
          Set_available_models [''yandexgpt-lite''], Get_authorization_field]
        \<lparr>global_available_models = [''yandexgpt''],
         instance_attrs = \<lparr>model_type = Some ''yandexgpt'', catalog_id = None,
           iam_token = None, api_key = None\<rparr>\<rparr>
    = \<lparr>global_available_models = [''yandexgpt-lite''],
       instance_attrs = \<lparr>model_type = Some ''yandexgpt'', catalog_id = Some ''cat123'',
         iam_token = None, api_key = None\<rparr>\<rparr>"
proof -
  let ?st = "\<lparr>global_available_models = [''yandexgpt''],
    instance_attrs = \<lparr>model_type = Some ''yandexgpt'', catalog_id = None,
      iam_token = None, api_key = None\<rparr>\<rparr>"
  let ?acts = "[Get_model_type_uri_field, Set_catalog_id (Some ''cat123''),
    Get_catalog_id_field, Set_available_models [''yandexgpt-lite''],
    Get_authorization_field]"
  have "run ?acts ?st = run (filter is_assignment ?acts) ?st"
    using properties_frame_and_dependence [where acts = ?acts and st = ?st]
    by blast
  also have "\<dots> = \<lparr>global_available_models = [''yandexgpt-lite''],
       instance_attrs = \<lparr>model_type = Some ''yandexgpt'', catalog_id = Some ''cat123'',
         iam_token = None, api_key = None\<rparr>\<rparr>"
    by (simp add: run_def)
  finally have trace: "run ?acts ?st = \<lparr>global_available_models = [''yandexgpt-lite''],
       instance_attrs = \<lparr>model_type = Some ''yandexgpt'', catalog_id = Some ''cat123'',
         iam_token = None, api_key = None\<rparr>\<rparr>" .
  have auth: "fst (completion_request_authorization_field
      \<lparr>model_type = None, catalog_id = None, iam_token = Some ''t1'', api_key = None\<rparr>)
    = fst (completion_request_authorization_field
      \<lparr>model_type = Some ''yandexgpt'', catalog_id = Some ''cat123'',
       iam_token = Some ''t1'', api_key = None\<rparr>)"
    using properties_frame_and_dependence
      [where c = "\<lparr>model_type = None, catalog_id = None,
          iam_token = Some ''t1'', api_key = None\<rparr>"
        and c' = "\<lparr>model_type = Some ''yandexgpt'', catalog_id = Some ''cat123'',
          iam_token = Some ''t1'', api_key = None\<rparr>"]
    by simp
  have cat: "fst (completion_request_catalog_id_field
      \<lparr>model_type = None, catalog_id = None, iam_token = Some ''t1'', api_key = None\<rparr>)
    = fst (completion_request_catalog_id_field
      \<lparr>model_type = Some ''yandexgpt'', catalog_id = None,
       iam_token = None, api_key = Some ''k1''\<rparr>)"
    using properties_frame_and_dependence
      [where c = "\<lparr>model_type = None, catalog_id = None,
          iam_token = Some ''t1'', api_key = None\<rparr>"
        and c' = "\<lparr>model_type = Some ''yandexgpt'', catalog_id = None,
          iam_token = None, api_key = Some ''k1''\<rparr>"]
    by simp
  have uri: "fst (completion_request_model_type_uri_field_at [''yandexgpt'']
      \<lparr>model_type = Some ''yandexgpt'', catalog_id = Some ''cat123'',
       iam_token = Some ''t1'', api_key = None\<rparr>)
    = fst (completion_request_model_type_uri_field_at [''yandexgpt'']
      \<lparr>model_type = Some ''yandexgpt'', catalog_id = Some ''cat123'',
       iam_token = None, api_key = Some ''k1''\<rparr>)"
    using properties_frame_and_dependence
      [where ms = "[''yandexgpt'']"
        and c = "\<lparr>model_type = Some ''yandexgpt'', catalog_id = Some ''cat123'',
          iam_token = Some ''t1'', api_key = None\<rparr>"
        and c' = "\<lparr>model_type = Some ''yandexgpt'', catalog_id = Some ''cat123'',
          iam_token = None, api_key = Some ''k1''\<rparr>"]
    by simp
  from auth cat uri trace show ?thesis
    by (intro conjI)
qed

text \<open>
  The four attributes alone do not determine the outcome of the model URI field (C9):
  with the same four attributes it returns the URI under the list of line 9 and raises
  once \<^verbatim>\<open>"yandexgpt"\<close> has been removed from the list.
\<close>

theorem model_type_uri_field_two_results_counterexample:
  "fst (completion_request_model_type_uri_field_at
      [''yandexgpt'', ''yandexgpt-lite'', ''summarization'']
      \<lparr>model_type = Some ''yandexgpt'', catalog_id = Some ''cat123'',
       iam_token = None, api_key = None\<rparr>)
   \<noteq> fst (completion_request_model_type_uri_field_at
      [''yandexgpt-lite'', ''summarization'']
      \<lparr>model_type = Some ''yandexgpt'', catalog_id = Some ''cat123'',
       iam_token = None, api_key = None\<rparr>)"
  by (simp add: completion_request_model_type_uri_field_at_def)

end
